theory Spec2Isabelle
  imports Complex_Main
begin

section \<open>Python values, errors and text helpers\<close>

text \<open>
  The values that the modelled code stores in attributes and uses as dictionary keys:
  strings, integers and booleans. \<open>None\<close> is the \<open>None\<close> of an option type.
\<close>

datatype pyval = PStr string | PInt int | PBool bool

text \<open>The exceptions that the modelled code can raise.\<close>

datatype error =
    IndexError
  | KeyError "pyval option"
  | AttributeError string
  | ImportError string
  | LookupError string
  | OtherError string

text \<open>Python truthiness of a stored value, and of an optional one (\<open>None\<close> is false).\<close>

fun truthy :: "pyval \<Rightarrow> bool" where
  "truthy (PStr s) = (s \<noteq> [])"
| "truthy (PInt i) = (i \<noteq> 0)"
| "truthy (PBool b) = b"

fun truthy_opt :: "pyval option \<Rightarrow> bool" where
  "truthy_opt None = False"
| "truthy_opt (Some v) = truthy v"

text \<open>Decimal rendering of integers, as \<open>str\<close> and \<open>format\<close> produce it.\<close>

definition digit_char :: "nat \<Rightarrow> char" where
  "digit_char d = ''0123456789'' ! d"

fun str_nat :: "nat \<Rightarrow> string" where
  "str_nat n = (if n < 10 then [digit_char n] else str_nat (n div 10) @ [digit_char (n mod 10)])"

declare str_nat.simps [simp del]

definition str_int :: "int \<Rightarrow> string" where
  "str_int i = (if i < 0 then CHR ''-'' # str_nat (nat (- i)) else str_nat (nat i))"

fun str_pyval :: "pyval \<Rightarrow> string" where
  "str_pyval (PStr s) = s"
| "str_pyval (PInt i) = str_int i"
| "str_pyval (PBool b) = (if b then ''True'' else ''False'')"

fun str_opt :: "pyval option \<Rightarrow> string" where
  "str_opt None = ''None''"
| "str_opt (Some v) = str_pyval v"

text \<open>\<open>sep.join(parts)\<close>.\<close>

fun join :: "string \<Rightarrow> string list \<Rightarrow> string" where
  "join sep [] = []"
| "join sep [x] = x"
| "join sep (x # y # ys) = x @ sep @ join sep (y # ys)"

text \<open>\<open>s.split(c)\<close> for a one-character separator.\<close>

fun split_on :: "char \<Rightarrow> string \<Rightarrow> string list" where
  "split_on c [] = [[]]"
| "split_on c (x # xs) =
     (if x = c then [] # split_on c xs
      else (case split_on c xs of [] \<Rightarrow> [[x]] | p # ps \<Rightarrow> (x # p) # ps))"

text \<open>\<open>s.strip()\<close>: whitespace removed at both ends.\<close>

definition is_space :: "char \<Rightarrow> bool" where
  "is_space c = (c \<in> set [CHR '' '', CHR 0x09, CHR 0x0A, CHR 0x0B, CHR 0x0C, CHR 0x0D])"

definition strip :: "string \<Rightarrow> string" where
  "strip s = rev (dropWhile is_space (rev (dropWhile is_space s)))"

text \<open>\<open>s.lower()\<close>, on ASCII letters.\<close>

definition lower_char :: "char \<Rightarrow> char" where
  "lower_char c =
     (case map_of (zip ''ABCDEFGHIJKLMNOPQRSTUVWXYZ'' ''abcdefghijklmnopqrstuvwxyz'') c of
        Some l \<Rightarrow> l
      | None \<Rightarrow> c)"

definition lower :: "string \<Rightarrow> string" where
  "lower s = map lower_char s"

text \<open>\<open>d[k]\<close> on a dictionary with string keys: a missing key raises \<open>KeyError\<close>.\<close>

fun dict_getitem :: "(string \<times> 'v) list \<Rightarrow> pyval option \<Rightarrow> error + 'v" where
  "dict_getitem d (Some (PStr k)) =
     (case map_of d k of Some v \<Rightarrow> Inr v | None \<Rightarrow> Inl (KeyError (Some (PStr k))))"
| "dict_getitem d k = Inl (KeyError k)"

text \<open>\<open>d.get(k, default)\<close>.\<close>

fun dict_get :: "(string \<times> 'v) list \<Rightarrow> pyval \<Rightarrow> 'v \<Rightarrow> 'v" where
  "dict_get d (PStr k) dflt = (case map_of d k of Some v \<Rightarrow> v | None \<Rightarrow> dflt)"
| "dict_get d k dflt = dflt"

section \<open>Login throttle (\<open>commands/prelogin.py\<close>, \<open>_throttle\<close>)\<close>

text \<open>
  A session's address is a host string or a tuple whose first element is the host.
\<close>

datatype address = AddrStr string | AddrTuple "string list"

record session =
  address :: address
  protocol_flags :: "string \<rightharpoonup> pyval"

text \<open>
  \<open>address = session.address; if isinstance(address, tuple): address = address[0]\<close>.
  Indexing an empty tuple raises.
\<close>

fun address_key :: "address \<Rightarrow> error + string" where
  "address_key (AddrStr a) = Inr a"
| "address_key (AddrTuple []) = Inl IndexError"
| "address_key (AddrTuple (a # rest)) = Inr a"

text \<open>
  The storage is a \<open>defaultdict(list)\<close> from address to the timestamps of failed
  logins: reading a missing key yields the empty list and stores it.
\<close>

type_synonym storage = "string \<rightharpoonup> real list"

definition fails :: "storage \<Rightarrow> string \<Rightarrow> real list" where
  "fails st a = (case st a of None \<Rightarrow> [] | Some l \<Rightarrow> l)"

definition defaultdict_get :: "storage \<Rightarrow> string \<Rightarrow> real list \<times> storage" where
  "defaultdict_get st a = (fails st a, st(a \<mapsto> fails st a))"

text \<open>
  \<open>_throttle(session, maxlim, timeout, storage)\<close>. The clock is read once on entry
  (\<open>now\<close>) and once more when a failure is stored (\<open>now2\<close>). \<open>if maxlim and timeout\<close>
  is Python truthiness: \<open>None\<close> and \<open>0\<close> both select the storing branch.
\<close>

definition throttle_check :: "string \<Rightarrow> int \<Rightarrow> real \<Rightarrow> real \<Rightarrow> storage \<Rightarrow> bool \<times> storage" where
  "throttle_check a maxlim timeout now st =
     (let (latest_fails, st1) = defaultdict_get st a in
      if latest_fails \<noteq> [] \<and> maxlim \<le> int (length latest_fails) then
        if now - last latest_fails < timeout then (True, st1)
        else (False, st1(a \<mapsto> []))
      else (False, st1))"

definition throttle_store :: "string \<Rightarrow> real \<Rightarrow> storage \<Rightarrow> bool \<times> storage" where
  "throttle_store a now2 st =
     (let (latest_fails, st1) = defaultdict_get st a in
      (False, st1(a \<mapsto> latest_fails @ [now2])))"

definition throttle ::
  "session \<Rightarrow> int option \<Rightarrow> real option \<Rightarrow> real \<Rightarrow> real \<Rightarrow> storage \<Rightarrow> error + (bool \<times> storage)" where
  "throttle s maxlim timeout now now2 st =
     (case address_key (address s) of
        Inl e \<Rightarrow> Inl e
      | Inr a \<Rightarrow>
          (case (maxlim, timeout) of
             (Some m, Some t) \<Rightarrow>
               if m \<noteq> 0 \<and> t \<noteq> 0 then Inr (throttle_check a m t now st)
               else Inr (throttle_store a now2 st)
           | _ \<Rightarrow> Inr (throttle_store a now2 st)))"

section \<open>Exits and path movement (\<open>typeclasses/exits.py\<close>)\<close>

text \<open>
  Objects of the game world are referred to by reference; the world gives the fields of
  each. Only the fields that the modelled code reads or writes are kept: \<open>db_\<close> fields
  are persistent attributes, \<open>ndb_\<close> fields are transient ones. An unset attribute
  reads as \<open>None\<close>.
\<close>

type_synonym ref = nat

datatype deferred = Deferred (delay: int) (d_exit: ref) (d_traveller: ref) (d_target: ref)

record obj =
  key :: string
  STYLE :: string
  location :: "ref option"
  destination :: "ref option"
  home :: "ref option"
  exits :: "ref list"
  db_is_path :: "pyval option"
  db_err_traverse :: "pyval option"
  db_move_speed :: "pyval option"
  db_last_room :: "ref option"
  ndb_last_location :: "ref option"
  ndb_currently_moving :: "deferred option"

type_synonym world = "ref \<Rightarrow> obj"

text \<open>
  Calls into the framework are recorded in a trace, in the order the code makes them.
  What such a call does to the world is the framework's business and is not modelled;
  where the code uses the call's result, the result is a parameter of the model.
  \<open>Msg o text\<close> is \<open>o.msg(text)\<close>; \<open>MsgContents l text x\<close> is
  \<open>l.msg_contents(text, exclude=x)\<close>; \<open>MoveTo o d u\<close> is \<open>o.move_to(d)\<close> with
  \<open>use_destination=u\<close>; \<open>ExecuteCmd o c\<close> is \<open>o.execute_cmd(c)\<close>; \<open>Delay d\<close> is
  \<open>utils.delay\<close> scheduling the arrival callback and \<open>Cancel d\<close> its cancellation;
  \<open>FailedTraverse e o\<close> is \<open>e.at_failed_traverse(o)\<close>.
\<close>

datatype effect =
    Msg ref string
  | MsgContents ref string ref
  | MoveTo ref "ref option" bool
  | ExecuteCmd ref string
  | Delay deferred
  | Cancel deferred
  | FailedTraverse ref ref

text \<open>
  A run of a method: the trace of its framework calls, the world as its own assignments
  leave it, and its return value or the exception it raises.
\<close>

type_synonym 'r run = "effect list \<times> world \<times> (error + 'r)"

definition MOVE_DELAY :: "(string \<times> int) list" where
  "MOVE_DELAY = [(''stroll'', 16), (''walk'', 8), (''run'', 4), (''sprint'', 2), (''scamper'', 1)]"

definition SPEED_DESCS :: "(string \<times> string) list" where
  "SPEED_DESCS = [(''stroll'', ''strolling''), (''walk'', ''walking''), (''run'', ''running''),
                  (''sprint'', ''sprinting''), (''scamper'', ''scampering'')]"

text \<open>\<open>x or d\<close> on an attribute value.\<close>

definition py_or :: "pyval option \<Rightarrow> pyval \<Rightarrow> pyval" where
  "py_or x d = (case x of Some v \<Rightarrow> if truthy v then v else d | None \<Rightarrow> d)"

text \<open>
  \<open>Exit.at_after_traverse(traveller, source_loc)\<close>. Reading \<open>source_loc.destination\<close>
  of \<open>None\<close> raises, after the first assignment has been made.
\<close>

definition at_after_traverse :: "world \<Rightarrow> ref \<Rightarrow> ref option \<Rightarrow> world \<times> (error + unit)" where
  "at_after_traverse w traveller source_loc =
     (let w1 = w(traveller := (w traveller)\<lparr>ndb_last_location := source_loc\<rparr>) in
      case source_loc of
        None \<Rightarrow> (w1, Inl (AttributeError ''destination''))
      | Some src \<Rightarrow>
          if destination (w1 src) = None
          then (w1(traveller := (w1 traveller)\<lparr>db_last_room := Some src\<rparr>), Inr ())
          else (w1, Inr ()))"

text \<open>
  The attributes an \<open>Exit\<close> has: those its class body defines and those of the
  framework's exit objects. \<open>caller\<close> is an attribute of commands, not of exits.
\<close>

definition Exit_attributes :: "string list" where
  "Exit_attributes =
     [''STYLE'', ''STYLE_PATH'', ''traits'', ''skills'', ''effects'', ''at_desc'',
      ''get_display_name'', ''mxp_name'', ''return_appearance'', ''at_traverse'',
      ''at_after_traverse'', ''at_failed_traverse'', ''db'', ''ndb'', ''key'', ''name'',
      ''id'', ''location'', ''destination'', ''home'', ''contents'', ''exits'', ''locks'',
      ''access'', ''msg'', ''msg_contents'', ''move_to'']"

definition Exit_getattr :: "string \<Rightarrow> error + unit" where
  "Exit_getattr name = (if name \<in> set Exit_attributes then Inr () else Inl (AttributeError name))"

text \<open>
  \<open>move_callback\<close>, the closure that \<open>Exit.at_traverse\<close> schedules, for exit \<open>self\<close>,
  traveller and target; \<open>moved\<close> is the result of \<open>traversing_object.move_to(target_location)\<close>.
\<close>

definition move_callback :: "world \<Rightarrow> ref \<Rightarrow> ref \<Rightarrow> ref \<Rightarrow> bool \<Rightarrow> unit run" where
  "move_callback w self traversing_object target_location moved =
     (let source_location = location (w traversing_object);
          tr = [MoveTo traversing_object (Some target_location) True] in
      if moved then
        (let w1 = w(traversing_object := (w traversing_object)\<lparr>ndb_currently_moving := None\<rparr>);
             (w2, r) = at_after_traverse w1 traversing_object source_location
         in (tr, w2, r))
      else if truthy_opt (db_err_traverse (w self)) then
        (case Exit_getattr ''caller'' of
           Inl e \<Rightarrow> (tr, w, Inl e)
         | Inr _ \<Rightarrow> (tr @ [Msg traversing_object (str_opt (db_err_traverse (w self)))], w, Inr ()))
      else (tr @ [FailedTraverse self traversing_object], w, Inr ()))"

text \<open>
  \<open>Exit.at_traverse(traversing_object, target_location)\<close>; \<open>before_ok\<close> is the result
  of the traveller's \<open>at_before_move\<close> hook and \<open>moved\<close> that of the one \<open>move_to\<close>
  the method makes. The return value is \<open>None\<close>, \<open>True\<close> or \<open>False\<close>.
\<close>

definition at_traverse ::
  "world \<Rightarrow> ref \<Rightarrow> ref \<Rightarrow> ref \<Rightarrow> bool \<Rightarrow> bool \<Rightarrow> bool option run" where
  "at_traverse w self traversing_object target_location before_ok moved =
     (if ndb_currently_moving (w traversing_object) \<noteq> None then
        ([Msg traversing_object (''You are already moving toward '' @ STYLE (w target_location)
             @ key (w target_location) @ ''|n.'')], w, Inr None)
      else
        let is_path = truthy_opt (db_is_path (w self));
            source_location = location (w traversing_object);
            move_speed = py_or (db_move_speed (w traversing_object)) (PStr ''walk'');
            move_delay = dict_get MOVE_DELAY move_speed 8
        in
        if \<not> before_ok then ([], w, Inr (Some False))
        else if \<not> is_path then
          (if moved then
             (let (w1, r) = at_after_traverse w traversing_object source_location in
              ([MoveTo traversing_object (Some self) True], w1,
               case r of Inl e \<Rightarrow> Inl e | Inr _ \<Rightarrow> Inr (Some True)))
           else ([MoveTo traversing_object (Some self) True], w, Inr (Some False)))
        else if location (w traversing_object) = Some target_location then ([], w, Inr (Some True))
        else
          let start_msg = Msg traversing_object (''You start moving '' @ key (w self) @ '' at a ''
                            @ str_pyval move_speed @ ''.'');
              d = Deferred move_delay self traversing_object target_location
          in
          if location (w traversing_object) \<noteq> Some self then
            (if \<not> moved then
               ([start_msg, MoveTo traversing_object (Some self) False], w, Inr (Some False))
             else
               (case at_after_traverse w traversing_object source_location of
                  (w1, Inl e) \<Rightarrow> ([start_msg, MoveTo traversing_object (Some self) False], w1, Inl e)
                | (w1, Inr _) \<Rightarrow>
                    ([start_msg, MoveTo traversing_object (Some self) False, Delay d],
                     w1(traversing_object := (w1 traversing_object)\<lparr>ndb_currently_moving := Some d\<rparr>),
                     Inr None)))
          else
            ([start_msg, Delay d],
             w(traversing_object := (w traversing_object)\<lparr>ndb_currently_moving := Some d\<rparr>),
             Inr None))"

text \<open>
  \<open>CmdSpeed.func\<close>, with the caller and the command's argument string. With no
  argument the label is looked up for \<open>caller.db.move_speed or 8\<close>.
\<close>

definition CmdSpeed_func :: "world \<Rightarrow> ref \<Rightarrow> string \<Rightarrow> unit run" where
  "CmdSpeed_func w caller args =
     (let speed = strip (lower args) in
      if args = [] then
        (case dict_getitem SPEED_DESCS (Some (py_or (db_move_speed (w caller)) (PInt 8))) of
           Inl e \<Rightarrow> ([], w, Inl e)
         | Inr d \<Rightarrow> ([Msg caller (''You are set to move by '' @ d @ ''.'')], w, Inr ()))
      else
        (case map_of SPEED_DESCS speed of
           None \<Rightarrow> ([Msg caller ''Usage: speed stroll||walk||run||sprint||scamper''], w, Inr ())
         | Some d \<Rightarrow>
             if db_move_speed (w caller) = Some (PStr speed)
             then ([Msg caller (''You are already set to move by '' @ d @ ''.'')], w, Inr ())
             else ([Msg caller (''You will now move by '' @ d @ ''.'')],
                   w(caller := (w caller)\<lparr>db_move_speed := Some (PStr speed)\<rparr>), Inr ())))"

text \<open>\<open>CmdStop.func\<close>.\<close>

definition CmdStop_func :: "world \<Rightarrow> ref \<Rightarrow> unit run" where
  "CmdStop_func w caller =
     (case ndb_currently_moving (w caller) of
        Some d \<Rightarrow>
          ([Cancel d, Msg caller ''You stop moving.''],
           w(caller := (w caller)\<lparr>ndb_currently_moving := None\<rparr>), Inr ())
      | None \<Rightarrow> ([Msg caller ''You are not moving.''], w, Inr ()))"

text \<open>
  \<open>CmdContinue.func\<close>. \<open>dn\<close> gives the display name of an object as the caller's
  sessions see it; \<open>moved\<close> is the result of \<open>caller.move_to(destination, quiet=False)\<close>.
  The label is \<open>SPEED_DESCS[caller.db.move_speed]\<close>, evaluated after the announcement
  to the other occupants has been sent.
\<close>

definition CmdContinue_func :: "world \<Rightarrow> (ref \<Rightarrow> string) \<Rightarrow> ref \<Rightarrow> bool \<Rightarrow> unit run" where
  "CmdContinue_func w dn caller moved =
     (case location (w caller) of
        None \<Rightarrow> ([], w, Inl (AttributeError ''destination''))
      | Some start \<Rightarrow>
          (case destination (w start) of
             None \<Rightarrow> ([Msg caller ''You have not yet decided which way to go.''], w, Inr ())
           | Some dest \<Rightarrow>
               if ndb_currently_moving (w caller) \<noteq> None then
                 ([Msg caller (''You are already moving toward '' @ STYLE (w dest) @ key (w dest)
                      @ ''|n.'')], w, Inr ())
               else
                 let announce = MsgContents start (dn caller @ '' is going to '' @ dn dest @ ''.'') caller
                 in
                 (case dict_getitem SPEED_DESCS (db_move_speed (w caller)) of
                    Inl e \<Rightarrow> ([announce], w, Inl e)
                  | Inr d \<Rightarrow>
                      let tr = [announce,
                                Msg caller (''You begin '' @ d @ '' toward '' @ dn dest @ ''.''),
                                MoveTo caller (Some dest) True]
                      in
                      if moved then
                        (let (w1, r) = at_after_traverse w caller (Some start) in (tr, w1, r))
                      else (tr, w, Inr ()))))"

text \<open>
  \<open>CmdBack.func\<close>. The command only reads the world and calls the framework; its run
  is the trace of those calls. \<open>x or y or z\<close> on object references takes the first that
  is set.
\<close>

definition first_set :: "ref option \<Rightarrow> ref option \<Rightarrow> ref option \<Rightarrow> ref option" where
  "first_set a b c = (case a of Some x \<Rightarrow> Some x | None \<Rightarrow> (case b of Some y \<Rightarrow> Some y | None \<Rightarrow> c))"

definition CmdBack_func :: "world \<Rightarrow> (ref \<Rightarrow> string) \<Rightarrow> ref \<Rightarrow> effect list" where
  "CmdBack_func w dn char =
     (case location (w char) of
        None \<Rightarrow>
          [MoveTo char (first_set (ndb_last_location (w char)) (db_last_room (w char)) (home (w char))) True]
      | Some here \<Rightarrow>
          let start = location (w here) in
          (case destination (w here) of
             None \<Rightarrow>
               (case db_last_room (w char) of
                  Some last_room \<Rightarrow>
                    if last_room \<noteq> here then
                      (if exits (w here) \<noteq> [] then
                         map (\<lambda>e. ExecuteCmd char (key (w e)))
                           (filter (\<lambda>e. destination (w e) = Some last_room) (exits (w here)))
                       else [Msg char ''You go back the way you came.'',
                             MoveTo char (Some last_room) True])
                    else []
                | None \<Rightarrow>
                    (case start of
                       Some st \<Rightarrow> [Msg char (''You leave '' @ dn here @ ''.''), MoveTo char (Some st) True]
                     | None \<Rightarrow> [Msg char (''You can not leave '' @ dn here @ ''.'')]))
           | Some dest \<Rightarrow>
               (if ndb_currently_moving (w char) \<noteq> None then [ExecuteCmd char ''stop''] else [])
               @ [Msg char ''You turn around and go back the way you came.'', MoveTo char start True]))"

subsection \<open>A small world for evaluation\<close>

definition blank :: obj where
  "blank = \<lparr>key = [], STYLE = [], location = None, destination = None, home = None,
            exits = [], db_is_path = None, db_err_traverse = None, db_move_speed = None,
            db_last_room = None, ndb_last_location = None, ndb_currently_moving = None\<rparr>"

text \<open>
  Object 1 is a traveller standing inside the path exit 2 (``gate''), which leads from
  room 4 to room 3 and carries a custom error message. Object 5 is a character that is
  nowhere, with a persisted last room 4 and home 3.
\<close>

definition gate_world :: world where
  "gate_world =
     (\<lambda>r. blank)
       (1 := blank\<lparr>key := ''Traveller'', location := Some 2, home := Some 4\<rparr>,
        2 := blank\<lparr>key := ''gate'', STYLE := ''|g'', location := Some 4, destination := Some 3,
                   db_is_path := Some (PBool True),
                   db_err_traverse := Some (PStr ''The gate is closed.'')\<rparr>,
        3 := blank\<lparr>key := ''Yard'', STYLE := ''|y''\<rparr>,
        4 := blank\<lparr>key := ''Hall'', STYLE := ''|y'', exits := [2]\<rparr>,
        5 := blank\<lparr>key := ''Ghost'', db_last_room := Some 4, home := Some 3\<rparr>)"

text \<open>The same world with the traveller set to run.\<close>

definition runner_world :: world where
  "runner_world = gate_world(1 := (gate_world 1)\<lparr>db_move_speed := Some (PStr ''run'')\<rparr>)"

definition plain_name :: "world \<Rightarrow> ref \<Rightarrow> string" where
  "plain_name w r = key (w r)"

section \<open>Account and character provisioning (\<open>commands/prelogin.py\<close>)\<close>

text \<open>
  What the pre-login code sends to the session, writes to the log or standard output,
  and asks of the session handler, in the order it does so.
\<close>

datatype p_effect =
    SessMsg string
  | Disconnect string
  | PortalSync
  | LogTrace
  | LogErr string
  | Print string
  | CharMoveTo int ref

record account =
  a_id :: int
  a_key :: string
  db_FIRST_LOGIN :: bool
  db_playable_characters :: "int list option"
  db_last_puppet :: "int option"

record character =
  c_id :: int
  c_key :: string
  c_home :: "ref option"
  ndb_home_room :: "ref option"
  db_desc_brief :: "pyval option"
  c_locks :: "string \<rightharpoonup> string"

text \<open>
  The framework's lock handler, \<open>locks.add(lockstring)\<close>: the string holds lock
  definitions separated by semicolons, each of the form \<open>access_type:expression\<close>; every
  definition is stored under its access type, replacing an earlier one of that type.
\<close>

definition lock_access_type :: "string \<Rightarrow> string" where
  "lock_access_type d = strip (takeWhile (\<lambda>c. c \<noteq> CHR '':'') d)"

definition lock_defs :: "string \<Rightarrow> string list" where
  "lock_defs lockstring = filter (\<lambda>d. CHR '':'' \<in> set d) (split_on CHR '';'' lockstring)"

definition locks_add :: "string \<Rightarrow> (string \<rightharpoonup> string) \<Rightarrow> (string \<rightharpoonup> string)" where
  "locks_add lockstring locks = fold (\<lambda>d m. m(lock_access_type d \<mapsto> d)) (lock_defs lockstring) locks"

text \<open>The lock string that \<open>_create_character\<close> builds from the two ids.\<close>

definition new_locks :: "int \<Rightarrow> int \<Rightarrow> string" where
  "new_locks cid pid =
     join '';''
       [''puppet:id('' @ str_int cid @ '') or pid('' @ str_int pid @ '') or perm(immortal)'',
        ''edit:id('' @ str_int cid @ '') or pid('' @ str_int pid @ '') or perm(wizard)'',
        ''control:id('' @ str_int cid @ '') or pid('' @ str_int pid @ '') or perm(immortal)'']"

text \<open>
  \<open>home_room = new_character.ndb.home_room; if home_room: ...\<close>: a home room set
  on the new character replaces its home, and the character is moved there.
\<close>

definition apply_home_room :: "character \<Rightarrow> character \<times> p_effect list" where
  "apply_home_room ch =
     (case ndb_home_room ch of
        Some room \<Rightarrow> (ch\<lparr>c_home := Some room\<rparr>, [CharMoveTo (c_id ch) room])
      | None \<Rightarrow> (ch, []))"

text \<open>
  The part of \<open>_create_character\<close> after the debug output: the locks, the default
  brief description, and the account's last puppet.
\<close>

definition default_desc_brief :: string where
  "default_desc_brief = ''It looks like a new creature on the block.''"

definition set_locks_and_desc :: "int \<Rightarrow> character \<Rightarrow> character" where
  "set_locks_and_desc pid ch =
     (let ch2 = ch\<lparr>c_locks := locks_add (new_locks (c_id ch) pid) (c_locks ch)\<rparr>
      in if \<not> truthy_opt (db_desc_brief ch2)
         then ch2\<lparr>db_desc_brief := Some (PStr default_desc_brief)\<rparr>
         else ch2)"

text \<open>
  The body of the \<open>try\<close> in \<open>_create_character\<close>. \<open>create_object\<close> is the framework's
  object creation (typeclass, key, home, permissions), which may raise; \<open>room_key\<close> gives
  the key of a room. The result is the trace, the account and the character as the
  assignments made so far leave them, and whether the body completed or raised.
\<close>

definition create_character_body ::
  "(ref \<Rightarrow> string) \<Rightarrow> (string \<Rightarrow> string \<Rightarrow> ref option \<Rightarrow> string list \<Rightarrow> error + character)
     \<Rightarrow> account \<Rightarrow> string \<Rightarrow> ref option \<Rightarrow> string list
     \<Rightarrow> p_effect list \<times> account \<times> character option \<times> (error + unit)" where
  "create_character_body room_key create_object new_account typeclass home_arg permissions =
     (case create_object typeclass (a_key new_account) home_arg permissions of
        Inl e \<Rightarrow> ([], new_account, None, Inl e)
      | Inr ch0 \<Rightarrow>
          (case db_playable_characters new_account of
             None \<Rightarrow> ([], new_account, Some ch0, Inl (AttributeError ''append''))
           | Some chars \<Rightarrow>
               let acc1 = new_account\<lparr>db_playable_characters := Some (chars @ [c_id ch0])\<rparr>;
                   ch1 = fst (apply_home_room ch0);
                   tr2 = snd (apply_home_room ch0)
                           @ [Print (''New character '' @ c_key ch1 @ '' created with account ''
                                       @ a_key acc1 @ ''.'')]
               in
               (case c_home ch1 of
                  None \<Rightarrow> (tr2, acc1, Some ch1, Inl (AttributeError ''key''))
                | Some h \<Rightarrow>
                    let tr3 = tr2 @ [Print (''New character '' @ c_key ch1 @ '' home set to ''
                                              @ room_key h @ ''.'')];
                        ch3 = set_locks_and_desc (a_id acc1) ch1;
                        acc2 = acc1\<lparr>db_last_puppet := Some (c_id ch3)\<rparr>
                    in (tr3, acc2, Some ch3, Inr ()))))"

text \<open>
  \<open>_create_character\<close>: any exception of the body is reported to the session and
  logged, not raised again. \<open>show_error\<close> renders an exception as text.
\<close>

definition create_character ::
  "(error \<Rightarrow> string) \<Rightarrow> (ref \<Rightarrow> string)
     \<Rightarrow> (string \<Rightarrow> string \<Rightarrow> ref option \<Rightarrow> string list \<Rightarrow> error + character)
     \<Rightarrow> account \<Rightarrow> string \<Rightarrow> ref option \<Rightarrow> string list
     \<Rightarrow> p_effect list \<times> account \<times> character option" where
  "create_character show_error room_key create_object new_account typeclass home_arg permissions =
     (case create_character_body room_key create_object new_account typeclass home_arg permissions of
        (tr, acc, ch, Inr _) \<Rightarrow> (tr, acc, ch)
      | (tr, acc, ch, Inl e) \<Rightarrow>
          (tr @ [SessMsg (''There was an error creating the Character:'' @ [CHR 0x0A] @ show_error e
                           @ [CHR 0x0A] @ '' If this problem persists, contact an admin.''),
                 LogTrace], acc, ch))"

subsection \<open>An account and an object creation for evaluation\<close>

definition sample_account :: account where
  "sample_account = \<lparr>a_id = 7, a_key = ''Anna'', db_FIRST_LOGIN = True,
                      db_playable_characters = Some [], db_last_puppet = None\<rparr>"

definition sample_create_object ::
  "string \<Rightarrow> string \<Rightarrow> ref option \<Rightarrow> string list \<Rightarrow> error + character" where
  "sample_create_object typeclass k h permissions =
     Inr \<lparr>c_id = 42, c_key = k, c_home = h, ndb_home_room = None, db_desc_brief = None,
          c_locks = Map.empty\<rparr>"

section \<open>Guest login (\<open>commands/prelogin.py\<close>, \<open>create_guest_account\<close>)\<close>

text \<open>
  \<open>AccountDB.objects.filter(username__iexact=q).count()\<close> over the registered
  usernames: the comparison ignores case, and the value \<open>None\<close> selects the rows whose
  username is null, of which there are none.
\<close>

definition iexact_count :: "string list \<Rightarrow> string option \<Rightarrow> nat" where
  "iexact_count usernames q =
     (case q of None \<Rightarrow> 0 | Some n \<Rightarrow> length (filter (\<lambda>u. lower u = lower n) usernames))"

text \<open>
  The loop over \<open>settings.GUEST_LIST\<close>, with the loop variable \<open>name\<close> and the
  variable \<open>accountname\<close>, which is \<open>None\<close> on entry. The query is made with
  \<open>accountname\<close>. \<open>count\<close> is the query; it may fail.
\<close>

fun find_guest_name ::
  "(string option \<Rightarrow> error + nat) \<Rightarrow> string option \<Rightarrow> string list \<Rightarrow> error + string option" where
  "find_guest_name count accountname [] = Inr accountname"
| "find_guest_name count accountname (name # rest) =
     (case count accountname of
        Inl e \<Rightarrow> Inl e
      | Inr n \<Rightarrow> if n = 0 then Inr (Some name) else find_guest_name count accountname rest)"

text \<open>\<open>'%016x' % n\<close>: lower-case hexadecimal, padded with zeros to sixteen digits.\<close>

definition hex_digit :: "nat \<Rightarrow> char" where
  "hex_digit d = ''0123456789abcdef'' ! d"

fun hex_nat :: "nat \<Rightarrow> string" where
  "hex_nat n = (if n < 16 then [hex_digit n] else hex_nat (n div 16) @ [hex_digit (n mod 16)])"

declare hex_nat.simps [simp del]

definition hex16 :: "nat \<Rightarrow> string" where
  "hex16 n = replicate (16 - length (hex_nat n)) (CHR ''0'') @ hex_nat n"

text \<open>
  A ban entry holds a lower-cased account name, a reserved field, and an optional compiled
  address pattern, given here by the addresses it matches.
\<close>

type_synonym ban = "string \<times> string \<times> (address \<Rightarrow> bool) option"

definition ip_banned :: "ban list \<Rightarrow> address \<Rightarrow> bool" where
  "ip_banned bans addr =
     (bans \<noteq> [] \<and> list_ex (\<lambda>tup. case snd (snd tup) of Some m \<Rightarrow> m addr | None \<Rightarrow> False) bans)"

record settings =
  GUEST_ENABLED :: bool
  GUEST_LIST :: "string list"
  GUEST_HOME :: ref
  PERMISSION_GUEST_DEFAULT :: "string list"
  BASE_CHARACTER_TYPECLASS :: string
  BASE_GUEST_TYPECLASS :: string

text \<open>
  The framework and the environment as the guest login sees them: the account query, the
  stored bans, the framework's account and object creation (either may raise), the
  lookup of a room by id, whether joining the public channel succeeded, the random bits
  for the password, and the rendering of exceptions and room keys in messages.
\<close>

record env =
  count_accounts :: "string option \<Rightarrow> error + nat"
  server_bans :: "ban list"
  fw_create_account :: "string \<Rightarrow> string option \<Rightarrow> string \<Rightarrow> string list \<Rightarrow> string option \<Rightarrow> error + account"
  fw_create_object :: "string \<Rightarrow> string \<Rightarrow> ref option \<Rightarrow> string list \<Rightarrow> error + character"
  get_id :: "ref \<Rightarrow> ref option"
  channel_joined :: bool
  randbits :: nat
  show_error :: "error \<Rightarrow> string"
  room_key :: "ref \<Rightarrow> string"

text \<open>
  \<open>_create_account\<close>: returns the new account, or \<open>False\<close> (here \<open>None\<close>) when the
  framework's creation raises, after reporting and logging.
\<close>

definition create_account ::
  "env \<Rightarrow> string \<Rightarrow> string \<Rightarrow> string list \<Rightarrow> string option \<Rightarrow> string option
     \<Rightarrow> p_effect list \<times> account option" where
  "create_account ev accountname password permissions typeclass email =
     (case fw_create_account ev accountname email password permissions typeclass of
        Inl e \<Rightarrow>
          ([SessMsg (''There was an error creating the Account:'' @ [CHR 0x0A] @ show_error ev e
                       @ [CHR 0x0A] @ '' If this problem persists, contact an admin.''),
            LogTrace], None)
      | Inr acc \<Rightarrow>
          let acc1 = acc\<lparr>db_FIRST_LOGIN := True\<rparr> in
          if \<not> channel_joined ev
          then ([LogErr (''New account '' @ [CHR 0x27] @ a_key acc1 @ [CHR 0x27]
                           @ '' could not connect to public channel!'')], Some acc1)
          else ([], Some acc1))"

text \<open>
  \<open>create_guest_account(session)\<close>: the pair of the enabled flag and the account (or
  none), or the exception raised again after it has been reported and logged.
\<close>

definition create_guest_account ::
  "settings \<Rightarrow> env \<Rightarrow> session \<Rightarrow> p_effect list \<times> (error + bool \<times> account option)" where
  "create_guest_account cfg ev sess =
     (if \<not> GUEST_ENABLED cfg then ([], Inr (False, None))
      else if ip_banned (server_bans ev) (address sess) then
        ([SessMsg (''|rYou have been banned and cannot continue from here.'' @ [CHR 0x0A]
                     @ ''If you feel this ban is in error, please email an admin.|x''),
          Disconnect ''Good bye! Disconnecting.''], Inr (True, None))
      else
        (case find_guest_name (count_accounts ev) None (GUEST_LIST cfg) of
           Inl e \<Rightarrow>
             ([SessMsg ''An error occurred. Please e-mail an admin if the problem persists.'',
               LogTrace], Inl e)
         | Inr found \<Rightarrow>
             (case found of
                None \<Rightarrow> ([SessMsg ''All guest accounts are in use. Please try again later.''],
                          Inr (True, None))
              | Some accountname \<Rightarrow>
                  if accountname = [] then
                    ([SessMsg ''All guest accounts are in use. Please try again later.''],
                     Inr (True, None))
                  else
                    let password = hex16 (randbits ev);
                        home_obj = get_id ev (GUEST_HOME cfg);
                        permissions = PERMISSION_GUEST_DEFAULT cfg;
                        (tr1, new_account) =
                          create_account ev accountname password permissions
                            (Some (BASE_GUEST_TYPECLASS cfg)) None
                    in
                    (case new_account of
                       None \<Rightarrow> (tr1, Inr (True, None))
                     | Some acc \<Rightarrow>
                         let (tr2, acc', ch) =
                               create_character (show_error ev) (room_key ev) (fw_create_object ev)
                                 acc (BASE_CHARACTER_TYPECLASS cfg) home_obj permissions
                         in (tr1 @ tr2, Inr (True, Some acc'))))))"

section \<open>The encoding command (\<open>CmdUnconnectedEncoding.func\<close>)\<close>

definition sq :: string where
  "sq = [CHR 0x27]"

text \<open>The two messages of an encoding change, for the argument and the old flag.\<close>

definition encoding_rejected_msg :: "string \<Rightarrow> pyval option \<Rightarrow> string" where
  "encoding_rejected_msg encoding old_encoding =
     ''|rThe encoding '' @ sq @ ''|w'' @ encoding @ ''|r'' @ sq
       @ '' is invalid. Keeping the previous encoding '' @ sq @ ''|w''
       @ str_opt old_encoding @ ''|r'' @ sq @ ''.|n''"

definition encoding_changed_msg :: "string \<Rightarrow> pyval option \<Rightarrow> string" where
  "encoding_changed_msg encoding old_encoding =
     ''Your custom text encoding was changed from '' @ sq @ ''|w''
       @ str_opt old_encoding @ ''|n'' @ sq @ '' to '' @ sq @ ''|w'' @ encoding
       @ ''|n'' @ sq @ ''.''"

text \<open>
  \<open>validate\<close> is the round trip of the test string through the named codec: \<open>None\<close>
  when it succeeds, otherwise the exception it raises (\<open>LookupError\<close> for an unknown
  codec). \<open>ENCODINGS\<close> is the server's list of alternative encodings.
\<close>

definition CmdUnconnectedEncoding_func ::
  "(string \<Rightarrow> error option) \<Rightarrow> string list \<Rightarrow> session option \<Rightarrow> string list \<Rightarrow> string
     \<Rightarrow> p_effect list \<times> session option \<times> (error + unit)" where
  "CmdUnconnectedEncoding_func validate ENCODINGS sess switches args =
     (case sess of
        None \<Rightarrow> ([], None, Inr ())
      | Some s \<Rightarrow>
          if ''clear'' \<in> set switches then
            (let old_encoding = protocol_flags s ''ENCODING'';
                 string = (if truthy_opt old_encoding
                           then ''Your custom text encoding ('' @ sq @ str_opt old_encoding @ sq
                                  @ '') was cleared.''
                           else ''No custom encoding was set.'')
             in ([PortalSync, SessMsg (strip string)],
                 Some (s\<lparr>protocol_flags := (protocol_flags s)(''ENCODING'' \<mapsto> PStr ''utf-8'')\<rparr>),
                 Inr ()))
          else if args = [] then
            (let pencoding = protocol_flags s ''ENCODING'';
                 string1 = (if truthy_opt pencoding
                            then ''Default encoding: |g'' @ str_opt pencoding
                                   @ ''|n (change with |w@encoding <encoding>|n)''
                            else []);
                 string2 = (if ENCODINGS \<noteq> []
                            then string1 @ [CHR 0x0A] @ ''Server'' @ sq
                                   @ ''s alternative encodings (tested in this order):''
                                   @ [CHR 0x0A] @ ''   |g'' @ join '', '' ENCODINGS @ ''|n''
                            else string1);
                 string = (if string2 = [] then ''No encodings found.'' else string2)
             in ([SessMsg (strip string)], Some s, Inr ()))
          else
            (let old_encoding = protocol_flags s ''ENCODING'' in
             case validate args of
               Some (LookupError x) \<Rightarrow>
                 ([SessMsg (strip (encoding_rejected_msg args old_encoding))], Some s, Inr ())
             | Some e \<Rightarrow> ([], Some s, Inl e)
             | None \<Rightarrow>
                 ([PortalSync, SessMsg (strip (encoding_changed_msg args old_encoding))],
                  Some (s\<lparr>protocol_flags := (protocol_flags s)(''ENCODING'' \<mapsto> PStr args)\<rparr>),
                  Inr ())))"

section \<open>Settings and environments for evaluation\<close>

definition guest_settings :: settings where
  "guest_settings = \<lparr>GUEST_ENABLED = True, GUEST_LIST = [''Guest1'', ''Guest2''], GUEST_HOME = 4,
                      PERMISSION_GUEST_DEFAULT = [''Guests''],
                      BASE_CHARACTER_TYPECLASS = ''typeclasses.characters.Character'',
                      BASE_GUEST_TYPECLASS = ''typeclasses.accounts.Guest''\<rparr>"

text \<open>
  An environment in which the usernames in \<open>registered\<close> are taken: the framework
  refuses to create an account under a name that is registered.
\<close>

definition guest_env :: "string list \<Rightarrow> env" where
  "guest_env registered =
     \<lparr>count_accounts = (\<lambda>q. Inr (iexact_count registered q)),
      server_bans = [],
      fw_create_account = (\<lambda>name email password permissions typeclass.
         if iexact_count registered (Some name) \<noteq> 0 then Inl (OtherError ''Account exists'')
         else Inr \<lparr>a_id = 7, a_key = name, db_FIRST_LOGIN = False,
                   db_playable_characters = Some [], db_last_puppet = None\<rparr>),
      fw_create_object = sample_create_object,
      get_id = (\<lambda>r. Some r),
      channel_joined = True,
      randbits = 0,
      show_error = (\<lambda>e. ''error''),
      room_key = (\<lambda>r. ''Hall'')\<rparr>"

definition guest_session :: session where
  "guest_session = \<lparr>address = AddrStr ''10.0.0.7'', protocol_flags = Map.empty\<rparr>"

text \<open>A codec registry for evaluation: three codecs are known.\<close>

definition sample_validate :: "string \<Rightarrow> error option" where
  "sample_validate name =
     (if name \<in> set [''utf-8'', ''latin-1'', ''cp437''] then None else Some (LookupError name))"

definition latin_session :: session where
  "latin_session = \<lparr>address = AddrStr ''10.0.0.7'',
                     protocol_flags = [''ENCODING'' \<mapsto> PStr ''latin-1'']\<rparr>"

section \<open>Worker process pool plugin (\<open>contrib/procpools/python_procpool_plugin.py\<close>)\<close>

text \<open>The module's constants.\<close>

record procpool_settings =
  PROCPOOL_ENABLED :: bool
  PROCPOOL_DEBUG :: bool
  PROCPOOL_MIN_NPROC :: int
  PROCPOOL_MAX_NPROC :: int
  PROCPOOL_TIMEOUT :: int
  PROCPOOL_IDLETIME :: int
  PROCPOOL_HOST :: string
  PROCPOOL_PORT :: int
  PROCPOOL_INTERFACE :: string
  PROCPOOL_UID :: "int option"
  PROCPOOL_GID :: "int option"
  PROCPOOL_DIRECTORY :: "string option"
  SERVICE_NAME :: string

definition plugin_settings :: procpool_settings where
  "plugin_settings =
     \<lparr>PROCPOOL_ENABLED = True, PROCPOOL_DEBUG = True, PROCPOOL_MIN_NPROC = 5,
      PROCPOOL_MAX_NPROC = 20, PROCPOOL_TIMEOUT = 15, PROCPOOL_IDLETIME = 20,
      PROCPOOL_HOST = ''localhost'', PROCPOOL_PORT = 5001, PROCPOOL_INTERFACE = ''0.0.0.0'',
      PROCPOOL_UID = None, PROCPOOL_GID = None, PROCPOOL_DIRECTORY = None,
      SERVICE_NAME = ''PythonProcPool''\<rparr>"

text \<open>
  What the plugin reads from its host: the operating system's name and path separator,
  the database name of the settings, and the bootstrap template of the pool library,
  as a function of the text inserted into it.
\<close>

record host =
  os_name :: string
  os_sep :: string
  db_default_name :: "string option"
  DATABASE_NAME :: string
  BOOTSTRAP :: "string \<Rightarrow> string"

text \<open>The keyword arguments of the three constructor calls.\<close>

record process_starter =
  st_packages :: "string list"
  st_env :: "(string \<times> string) list"
  st_path :: "string option"
  st_uid :: "int option"
  st_gid :: "int option"
  st_bootstrap :: string
  st_childReactor :: string

record process_pool =
  pool_name :: string
  pool_min :: int
  pool_max :: int
  pool_recycleAfter :: int
  pool_timeout :: int
  pool_ampChild :: string
  pool_starter :: process_starter

record amp_service =
  svc_pool :: process_pool
  svc_child :: string
  svc_port :: int
  svc_interface :: string
  svc_name :: "string option"

definition procpool_starter :: "procpool_settings \<Rightarrow> host \<Rightarrow> process_starter" where
  "procpool_starter cfg h =
     \<lparr>st_packages = [''twisted'',
                     join (os_sep h) [''..'', ''contrib'', ''procpools'', ''ampoule''],
                     join (os_sep h) [''..'', ''ev''],
                     ''..''],
      st_env = [(''DJANGO_SETTINGS_MODULE'', ''settings''),
                (''DATABASE_NAME'',
                 (case db_default_name h of
                    Some n \<Rightarrow> if n \<noteq> [] then n else DATABASE_NAME h
                  | None \<Rightarrow> DATABASE_NAME h))],
      st_path = PROCPOOL_DIRECTORY cfg,
      st_uid = PROCPOOL_UID cfg,
      st_gid = PROCPOOL_GID cfg,
      st_bootstrap = (if PROCPOOL_DEBUG cfg then BOOTSTRAP h ''log.startLogging(sys.stderr)''
                      else BOOTSTRAP h []),
      st_childReactor = (if os_name h = ''nt'' then ''select'' else ''epoll'')\<rparr>"

text \<open>
  \<open>start_plugin_services(server)\<close>: the line printed and the server's services
  afterwards.
\<close>

definition start_plugin_services ::
  "procpool_settings \<Rightarrow> host \<Rightarrow> amp_service list \<Rightarrow> string list \<times> amp_service list" where
  "start_plugin_services cfg h services =
     (if \<not> PROCPOOL_ENABLED cfg then ([], services)
      else
        let procpool = \<lparr>pool_name = SERVICE_NAME cfg,
                         pool_min = PROCPOOL_MIN_NPROC cfg,
                         pool_max = PROCPOOL_MAX_NPROC cfg,
                         pool_recycleAfter = 500,
                         pool_timeout = PROCPOOL_TIMEOUT cfg,
                         pool_ampChild = ''PythonProcPoolChild'',
                         pool_starter = procpool_starter cfg h\<rparr>;
            procpool_service = \<lparr>svc_pool = procpool, svc_child = ''PythonProcPoolChild'',
                                 svc_port = PROCPOOL_PORT cfg,
                                 svc_interface = PROCPOOL_INTERFACE cfg,
                                 svc_name = None\<rparr>;
            named = procpool_service\<lparr>svc_name := Some (SERVICE_NAME cfg)\<rparr>
        in ([''  amp (Process Pool): '' @ str_int (PROCPOOL_PORT cfg)], services @ [named]))"

section \<open>Command set assembly (\<open>commands/default_cmdsets.py\<close>)\<close>












subsection \<open>Modules for evaluation\<close>






section \<open>Properties\<close>

subsection \<open>The login throttle\<close>

lemma fails_upd_same: "fails (st(a \<mapsto> l)) a = l"
  by (simp add: fails_def)

lemma fails_upd_other: "b \<noteq> a \<Longrightarrow> fails (st(a \<mapsto> l)) b = fails st b"
  by (simp add: fails_def)

lemma throttle_check_throttled:
  assumes "0 < m" and "m \<le> int (length (fails st a))" and "now - last (fails st a) < t"
  shows "throttle_check a m t now st = (True, st(a \<mapsto> fails st a))"
proof -
  from assms(1,2) have "fails st a \<noteq> []" by auto
  with assms show ?thesis
    by (simp add: throttle_check_def defaultdict_get_def)
qed

lemma throttle_check_expired:
  assumes "0 < m" and "m \<le> int (length (fails st a))" and "\<not> now - last (fails st a) < t"
  shows "throttle_check a m t now st = (False, st(a \<mapsto> []))"
proof -
  from assms(1,2) have "fails st a \<noteq> []" by auto
  with assms show ?thesis
    by (simp add: throttle_check_def defaultdict_get_def)
qed

lemma throttle_check_below:
  assumes "int (length (fails st a)) < m"
  shows "throttle_check a m t now st = (False, st(a \<mapsto> fails st a))"
  using assms by (simp add: throttle_check_def defaultdict_get_def)

text \<open>
  C1. With the address key \<open>a\<close> of the session, a positive limit \<open>m\<close> and a non-zero
  timeout \<open>t\<close> (the values the code treats as given; it is called with 5 and 300): the
  check returns throttled exactly when the address's fail list has at least \<open>m\<close> entries
  and the current time minus the most recent entry is less than \<open>t\<close>, and then the list
  is unchanged; with at least \<open>m\<close> entries whose most recent one is \<open>t\<close> or more old the
  list is reset to empty and the check returns not throttled; with fewer than \<open>m\<close>
  entries it returns not throttled and the list is unchanged. A call without limit and
  timeout appends the current timestamp to the address's list and returns not throttled.
\<close>

theorem throttle_check_and_record:
  assumes key: "address_key (address s) = Inr a" and m: "0 < m" and t: "t \<noteq> 0"
  shows "(\<exists>b st'. throttle s (Some m) (Some t) now now2 st = Inr (b, st')
            \<and> (b \<longleftrightarrow> m \<le> int (length (fails st a)) \<and> now - last (fails st a) < t)
            \<and> (b \<longrightarrow> fails st' a = fails st a)
            \<and> (m \<le> int (length (fails st a)) \<and> t \<le> now - last (fails st a)
                 \<longrightarrow> \<not> b \<and> fails st' a = [])
            \<and> (int (length (fails st a)) < m \<longrightarrow> \<not> b \<and> fails st' a = fails st a))
       \<and> (\<exists>st'. throttle s None None now now2 st = Inr (False, st')
            \<and> fails st' a = fails st a @ [now2])"
proof (intro conjI)
  have run: "throttle s (Some m) (Some t) now now2 st = Inr (throttle_check a m t now st)"
    using key m t by (simp add: throttle_def)
  consider (hot) "m \<le> int (length (fails st a))" "now - last (fails st a) < t"
    | (cold) "m \<le> int (length (fails st a))" "\<not> now - last (fails st a) < t"
    | (few) "int (length (fails st a)) < m"
    by linarith
  then show "\<exists>b st'. throttle s (Some m) (Some t) now now2 st = Inr (b, st')
            \<and> (b \<longleftrightarrow> m \<le> int (length (fails st a)) \<and> now - last (fails st a) < t)
            \<and> (b \<longrightarrow> fails st' a = fails st a)
            \<and> (m \<le> int (length (fails st a)) \<and> t \<le> now - last (fails st a)
                 \<longrightarrow> \<not> b \<and> fails st' a = [])
            \<and> (int (length (fails st a)) < m \<longrightarrow> \<not> b \<and> fails st' a = fails st a)"
  proof cases
    case hot
    have "throttle s (Some m) (Some t) now now2 st = Inr (True, st(a \<mapsto> fails st a))"
      using run throttle_check_throttled [OF m hot] by simp
    with hot show ?thesis
      by (intro exI [of _ True] exI [of _ "st(a \<mapsto> fails st a)"]) (simp add: fails_upd_same)
  next
    case cold
    have "throttle s (Some m) (Some t) now now2 st = Inr (False, st(a \<mapsto> []))"
      using run throttle_check_expired [OF m cold] by simp
    with cold show ?thesis
      by (intro exI [of _ False] exI [of _ "st(a \<mapsto> [])"]) (simp add: fails_upd_same)
  next
    case few
    have "throttle s (Some m) (Some t) now now2 st = Inr (False, st(a \<mapsto> fails st a))"
      using run throttle_check_below [OF few] by simp
    with few show ?thesis
      by (intro exI [of _ False] exI [of _ "st(a \<mapsto> fails st a)"]) (simp add: fails_upd_same)
  qed
next
  show "\<exists>st'. throttle s None None now now2 st = Inr (False, st')
            \<and> fails st' a = fails st a @ [now2]"
    using key by (simp add: throttle_def throttle_store_def defaultdict_get_def fails_upd_same)
qed

theorem throttle_check_and_record_witness:
  "\<exists>st'. throttle \<lparr>address = AddrTuple [''10.0.0.7'', ''4000''], protocol_flags = Map.empty\<rparr>
            (Some 5) (Some 300) 1100 1100 [''10.0.0.7'' \<mapsto> [1000, 1010, 1020, 1030, 1040]]
          = Inr (True, st')
        \<and> fails st' ''10.0.0.7'' = [1000, 1010, 1020, 1030, 1040]"
proof -
  let ?s = "\<lparr>address = AddrTuple [''10.0.0.7'', ''4000''], protocol_flags = Map.empty\<rparr>"
  let ?st = "[''10.0.0.7'' \<mapsto> [1000, 1010, 1020, 1030, 1040 :: real]]"
  have key: "address_key (address ?s) = Inr ''10.0.0.7''" by simp
  have fl: "fails ?st ''10.0.0.7'' = [1000, 1010, 1020, 1030, 1040]"
    by (simp add: fails_def)
  from throttle_check_and_record [OF key, of 5 300 1100 1100 ?st]
  obtain b st' where
    run: "throttle ?s (Some 5) (Some 300) 1100 1100 ?st = Inr (b, st')" and
    iff: "b \<longleftrightarrow> 5 \<le> int (length (fails ?st ''10.0.0.7''))
            \<and> 1100 - last (fails ?st ''10.0.0.7'') < 300" and
    same: "b \<longrightarrow> fails st' ''10.0.0.7'' = fails ?st ''10.0.0.7''"
    by auto
  from iff have b by (simp add: fl)
  with run same fl show ?thesis by auto
qed

subsection \<open>The movement commands\<close>

lemma move_callback_generic_failure:
  assumes "\<not> truthy_opt (db_err_traverse (w self))"
  shows "move_callback w self traveller target False =
           ([MoveTo traveller (Some target) True, FailedTraverse self traveller], w, Inr ())"
  using assms by (simp add: move_callback_def)

text \<open>
  C4. The arrival callback of a path exit, when the move into the destination fails and
  the exit stores a custom error message: on the exit ``gate'' with the message
  ``The gate is closed.'' the callback sends nothing to the traveller and raises
  \<open>AttributeError\<close>, because it addresses the message to \<open>self.caller\<close> and an exit has
  no such attribute.
\<close>

theorem move_callback_custom_error_raises:
  "move_callback gate_world 2 1 3 False =
     ([MoveTo 1 (Some 3) True], gate_world, Inl (AttributeError ''caller''))"
  by (simp add: move_callback_def gate_world_def blank_def Exit_getattr_def Exit_attributes_def)

text \<open>
  C5. The speed command with no argument, for a caller with no stored move speed: on
  the traveller of the small world it sends no message and raises \<open>KeyError\<close> for the
  key 8, which is not a key of the label table.
\<close>

theorem speed_report_unset_raises:
  "CmdSpeed_func gate_world 1 [] = ([], gate_world, Inl (KeyError (Some (PInt 8))))"
  by (simp add: CmdSpeed_func_def gate_world_def blank_def py_or_def)

lemma speed_report_stored:
  assumes "db_move_speed (w caller) = Some (PStr s)" and "map_of SPEED_DESCS s = Some d"
  shows "CmdSpeed_func w caller [] = ([Msg caller (''You are set to move by '' @ d @ ''.'')], w, Inr ())"
proof -
  from assms(2) have "s \<noteq> []" by (auto simp: SPEED_DESCS_def)
  with assms show ?thesis by (simp add: CmdSpeed_func_def py_or_def)
qed

text \<open>
  C6. For a caller whose location is unset, the back command makes exactly one call,
  a move of the caller: to the transient last location if it is set, otherwise to the
  persisted last room if that is set, otherwise to the caller's home; no message is
  sent and no other command is executed.
\<close>

theorem back_from_nowhere:
  assumes "location (w char) = None"
  shows "(\<forall>l. ndb_last_location (w char) = Some l \<longrightarrow>
            CmdBack_func w dn char = [MoveTo char (Some l) True])
       \<and> (\<forall>r. ndb_last_location (w char) = None \<and> db_last_room (w char) = Some r \<longrightarrow>
            CmdBack_func w dn char = [MoveTo char (Some r) True])
       \<and> (ndb_last_location (w char) = None \<and> db_last_room (w char) = None \<longrightarrow>
            CmdBack_func w dn char = [MoveTo char (home (w char)) True])"
  using assms by (simp add: CmdBack_func_def first_set_def)

theorem back_from_nowhere_witness:
  "location (gate_world 5) = None
   \<and> CmdBack_func gate_world (plain_name gate_world) 5 = [MoveTo 5 (Some 4) True]"
proof -
  have nowhere: "location (gate_world 5) = None"
    by (simp add: gate_world_def blank_def)
  have "ndb_last_location (gate_world 5) = None \<and> db_last_room (gate_world 5) = Some 4"
    by (simp add: gate_world_def blank_def)
  with back_from_nowhere [where w = gate_world and char = 5 and dn = "plain_name gate_world"]
    nowhere
  show ?thesis by blast
qed

text \<open>
  C10. For a caller standing in an exit that has a destination, and not already moving:
  when the stored move speed is one of the five named speeds, the continue command finds
  its label in the table and uses it in the departure message to the caller; when no
  move speed is stored, the lookup raises \<open>KeyError\<close> for the key \<open>None\<close> after the
  announcement to the other occupants and before any message to the caller. Traversal
  of the same exit as a path by the same caller with no stored speed instead proceeds at
  a walk: the start message names walk and the arrival is scheduled after 8 time units.
\<close>

theorem continue_speed_lookup_has_no_fallback:
  assumes "location (w caller) = Some start" and "destination (w start) = Some dest"
    and "ndb_currently_moving (w caller) = None"
  shows "(\<forall>s \<in> set [''stroll'', ''walk'', ''run'', ''sprint'', ''scamper''].
            db_move_speed (w caller) = Some (PStr s) \<longrightarrow>
              (\<exists>d. dict_getitem SPEED_DESCS (db_move_speed (w caller)) = Inr d
                 \<and> fst (CmdContinue_func w dn caller moved) =
                     [MsgContents start (dn caller @ '' is going to '' @ dn dest @ ''.'') caller,
                      Msg caller (''You begin '' @ d @ '' toward '' @ dn dest @ ''.''),
                      MoveTo caller (Some dest) True]
                 \<and> snd (snd (CmdContinue_func w dn caller moved)) = Inr ()))
       \<and> (db_move_speed (w caller) = None \<longrightarrow>
            dict_getitem SPEED_DESCS (db_move_speed (w caller)) = Inl (KeyError None)
            \<and> CmdContinue_func w dn caller moved =
                ([MsgContents start (dn caller @ '' is going to '' @ dn dest @ ''.'') caller],
                 w, Inl (KeyError None)))
       \<and> (db_move_speed (w caller) = None \<and> truthy_opt (db_is_path (w start)) \<and> start \<noteq> dest \<longrightarrow>
            at_traverse w start caller dest True moved =
              ([Msg caller (''You start moving '' @ key (w start) @ '' at a walk.''),
                Delay (Deferred 8 start caller dest)],
               w(caller := (w caller)\<lparr>ndb_currently_moving := Some (Deferred 8 start caller dest)\<rparr>),
               Inr None))"
proof (intro conjI)
  show "\<forall>s \<in> set [''stroll'', ''walk'', ''run'', ''sprint'', ''scamper''].
            db_move_speed (w caller) = Some (PStr s) \<longrightarrow>
              (\<exists>d. dict_getitem SPEED_DESCS (db_move_speed (w caller)) = Inr d
                 \<and> fst (CmdContinue_func w dn caller moved) =
                     [MsgContents start (dn caller @ '' is going to '' @ dn dest @ ''.'') caller,
                      Msg caller (''You begin '' @ d @ '' toward '' @ dn dest @ ''.''),
                      MoveTo caller (Some dest) True]
                 \<and> snd (snd (CmdContinue_func w dn caller moved)) = Inr ())"
    using assms
    by (simp add: CmdContinue_func_def SPEED_DESCS_def at_after_traverse_def Let_def split_def)
next
  show "db_move_speed (w caller) = None \<longrightarrow>
            dict_getitem SPEED_DESCS (db_move_speed (w caller)) = Inl (KeyError None)
            \<and> CmdContinue_func w dn caller moved =
                ([MsgContents start (dn caller @ '' is going to '' @ dn dest @ ''.'') caller],
                 w, Inl (KeyError None))"
    using assms by (simp add: CmdContinue_func_def)
next
  show "db_move_speed (w caller) = None \<and> truthy_opt (db_is_path (w start)) \<and> start \<noteq> dest \<longrightarrow>
            at_traverse w start caller dest True moved =
              ([Msg caller (''You start moving '' @ key (w start) @ '' at a walk.''),
                Delay (Deferred 8 start caller dest)],
               w(caller := (w caller)\<lparr>ndb_currently_moving := Some (Deferred 8 start caller dest)\<rparr>),
               Inr None)"
    using assms by (simp add: at_traverse_def py_or_def MOVE_DELAY_def Let_def)
qed

theorem continue_speed_lookup_has_no_fallback_witness:
  "CmdContinue_func gate_world (plain_name gate_world) 1 True =
     ([MsgContents 2 ''Traveller is going to Yard.'' 1], gate_world, Inl (KeyError None))
   \<and> at_traverse gate_world 2 1 3 True True =
       ([Msg 1 ''You start moving gate at a walk.'', Delay (Deferred 8 2 1 3)],
        gate_world(1 := (gate_world 1)\<lparr>ndb_currently_moving := Some (Deferred 8 2 1 3)\<rparr>),
        Inr None)
   \<and> fst (CmdContinue_func runner_world (plain_name runner_world) 1 True) =
       [MsgContents 2 ''Traveller is going to Yard.'' 1,
        Msg 1 ''You begin running toward Yard.'',
        MoveTo 1 (Some 3) True]"
proof -
  have loc: "location (gate_world 1) = Some 2"
    and dst: "destination (gate_world 2) = Some 3"
    and still: "ndb_currently_moving (gate_world 1) = None"
    and unset: "db_move_speed (gate_world 1) = None"
    and path: "truthy_opt (db_is_path (gate_world 2))"
    by (simp_all add: gate_world_def blank_def)
  have names: "plain_name gate_world 1 = ''Traveller''" "plain_name gate_world 3 = ''Yard''"
    "key (gate_world 2) = ''gate''"
    by (simp_all add: plain_name_def gate_world_def blank_def)
  have rloc: "location (runner_world 1) = Some 2"
    and rdst: "destination (runner_world 2) = Some 3"
    and rstill: "ndb_currently_moving (runner_world 1) = None"
    and rspeed: "db_move_speed (runner_world 1) = Some (PStr ''run'')"
    by (simp_all add: runner_world_def gate_world_def blank_def)
  have rnames: "plain_name runner_world 1 = ''Traveller''" "plain_name runner_world 3 = ''Yard''"
    by (simp_all add: plain_name_def runner_world_def gate_world_def blank_def)
  have label: "dict_getitem SPEED_DESCS (Some (PStr ''run'')) = Inr ''running''"
    by (simp add: SPEED_DESCS_def)
  from continue_speed_lookup_has_no_fallback
         [where w = gate_world and caller = 1 and start = 2 and dest = 3
            and dn = "plain_name gate_world" and moved = True]
    loc dst still unset path names
  have a: "CmdContinue_func gate_world (plain_name gate_world) 1 True =
     ([MsgContents 2 ''Traveller is going to Yard.'' 1], gate_world, Inl (KeyError None))
   \<and> at_traverse gate_world 2 1 3 True True =
       ([Msg 1 ''You start moving gate at a walk.'', Delay (Deferred 8 2 1 3)],
        gate_world(1 := (gate_world 1)\<lparr>ndb_currently_moving := Some (Deferred 8 2 1 3)\<rparr>),
        Inr None)"
    by simp
  note ball = continue_speed_lookup_has_no_fallback
         [where w = runner_world and caller = 1 and start = 2 and dest = 3
            and dn = "plain_name runner_world" and moved = True, OF rloc rdst rstill,
          THEN conjunct1]
  have mem: "''run'' \<in> set [''stroll'', ''walk'', ''run'', ''sprint'', ''scamper'']" by simp
  from bspec [OF ball mem] rspeed obtain d where
    d1: "dict_getitem SPEED_DESCS (db_move_speed (runner_world 1)) = Inr d" and
    d2: "fst (CmdContinue_func runner_world (plain_name runner_world) 1 True) =
           [MsgContents 2 (plain_name runner_world 1 @ '' is going to ''
                             @ plain_name runner_world 3 @ ''.'') 1,
            Msg 1 (''You begin '' @ d @ '' toward '' @ plain_name runner_world 3 @ ''.''),
            MoveTo 1 (Some 3) True]"
    by blast
  from d1 have "d = ''running''" unfolding rspeed label by simp
  with d2 have b: "fst (CmdContinue_func runner_world (plain_name runner_world) 1 True) =
       [MsgContents 2 ''Traveller is going to Yard.'' 1,
        Msg 1 ''You begin running toward Yard.'',
        MoveTo 1 (Some 3) True]"
    unfolding rnames by simp
  from a b show ?thesis by simp
qed

subsection \<open>Lock strings and the created character\<close>

lemma digit_char_in: "d < 10 \<Longrightarrow> digit_char d \<in> set ''0123456789''"
  unfolding digit_char_def by (rule nth_mem) simp

lemma str_nat_digits: "set (str_nat n) \<subseteq> set ''0123456789''"
proof (induction n rule: str_nat.induct)
  case (1 n)
  show ?case
  proof (cases "n < 10")
    case True
    then show ?thesis using digit_char_in [of n] by (subst str_nat.simps) simp
  next
    case False
    have "n mod 10 < 10" by simp
    from digit_char_in [OF this] "1.IH" [OF False] False
    show ?thesis by (subst str_nat.simps) simp
  qed
qed

lemma split_on_absent: "c \<notin> set xs \<Longrightarrow> split_on c xs = [xs]"
  by (induction xs) auto

lemma split_on_append: "c \<notin> set xs \<Longrightarrow> split_on c (xs @ c # ys) = xs # split_on c ys"
  by (induction xs) auto

lemma str_nat_no_char:
  assumes "c \<notin> set ''0123456789''"
  shows "c \<notin> set (str_nat n)"
  using str_nat_digits [of n] assms by blast

lemma str_int_no_semicolon: "CHR '';'' \<notin> set (str_int i)"
proof -
  have d: "CHR '';'' \<notin> set ''0123456789''" by simp
  show ?thesis
    unfolding str_int_def
    using str_nat_no_char [OF d, of "nat i"] str_nat_no_char [OF d, of "nat (- i)"]
    by simp
qed

lemma lock_defs_new_locks:
  "lock_defs (new_locks cid pid) =
     [''puppet:id('' @ str_int cid @ '') or pid('' @ str_int pid @ '') or perm(immortal)'',
      ''edit:id('' @ str_int cid @ '') or pid('' @ str_int pid @ '') or perm(wizard)'',
      ''control:id('' @ str_int cid @ '') or pid('' @ str_int pid @ '') or perm(immortal)'']"
proof -
  let ?p = "''puppet:id('' @ str_int cid @ '') or pid('' @ str_int pid @ '') or perm(immortal)''"
  let ?e = "''edit:id('' @ str_int cid @ '') or pid('' @ str_int pid @ '') or perm(wizard)''"
  let ?c = "''control:id('' @ str_int cid @ '') or pid('' @ str_int pid @ '') or perm(immortal)''"
  have p: "CHR '';'' \<notin> set ?p" by (simp add: str_int_no_semicolon)
  have e: "CHR '';'' \<notin> set ?e" by (simp add: str_int_no_semicolon)
  have c: "CHR '';'' \<notin> set ?c" by (simp add: str_int_no_semicolon)
  have "new_locks cid pid = ?p @ CHR '';'' # (?e @ CHR '';'' # ?c)"
    by (simp add: new_locks_def)
  then have "split_on CHR '';'' (new_locks cid pid) = [?p, ?e, ?c]"
    by (simp only: split_on_append [OF p] split_on_append [OF e] split_on_absent [OF c])
  then show ?thesis by (simp add: lock_defs_def)
qed

lemma strip_word: "strip ''puppet'' = ''puppet''" "strip ''edit'' = ''edit''" "strip ''control'' = ''control''"
  by (simp_all add: strip_def is_space_def)

lemma locks_add_new_locks:
  "locks_add (new_locks cid pid) locks =
     locks(''puppet'' \<mapsto> ''puppet:id('' @ str_int cid @ '') or pid('' @ str_int pid @ '') or perm(immortal)'',
           ''edit'' \<mapsto> ''edit:id('' @ str_int cid @ '') or pid('' @ str_int pid @ '') or perm(wizard)'',
           ''control'' \<mapsto> ''control:id('' @ str_int cid @ '') or pid('' @ str_int pid @ '') or perm(immortal)'')"
  by (simp add: locks_add_def lock_defs_new_locks lock_access_type_def strip_word)

lemma apply_home_room_keeps:
  "c_id (fst (apply_home_room ch)) = c_id ch"
  "c_locks (fst (apply_home_room ch)) = c_locks ch"
  "db_desc_brief (fst (apply_home_room ch)) = db_desc_brief ch"
  by (simp_all add: apply_home_room_def split: option.splits)

lemma set_locks_and_desc_id: "c_id (set_locks_and_desc pid ch) = c_id ch"
  by (simp add: set_locks_and_desc_def Let_def)

lemma set_locks_and_desc_locks:
  "c_locks (set_locks_and_desc pid ch) = locks_add (new_locks (c_id ch) pid) (c_locks ch)"
  by (simp add: set_locks_and_desc_def Let_def)

lemma set_locks_and_desc_brief:
  "db_desc_brief (set_locks_and_desc pid ch) =
     (if truthy_opt (db_desc_brief ch) then db_desc_brief ch else Some (PStr default_desc_brief))"
  by (simp add: set_locks_and_desc_def Let_def)

lemma create_character_body_success:
  assumes "create_character_body rk create_object acct typeclass home_arg perms = (tr, acct', cho, Inr ())"
  shows "\<exists>ch0. create_object typeclass (a_key acct) home_arg perms = Inr ch0
           \<and> cho = Some (set_locks_and_desc (a_id acct) (fst (apply_home_room ch0)))"
proof (cases "create_object typeclass (a_key acct) home_arg perms")
  case (Inl e)
  with assms show ?thesis by (simp add: create_character_body_def)
next
  case (Inr ch0)
  show ?thesis
  proof (cases "db_playable_characters acct")
    case None
    with assms Inr show ?thesis by (simp add: create_character_body_def)
  next
    case (Some chars)
    show ?thesis
    proof (cases "c_home (fst (apply_home_room ch0))")
      case None
      with assms Inr Some show ?thesis by (simp add: create_character_body_def Let_def)
    next
      case (Some h)
      with assms Inr \<open>db_playable_characters acct = Some chars\<close> show ?thesis
        by (simp add: create_character_body_def Let_def)
    qed
  qed
qed

lemma str_int_42: "str_int 42 = ''42''" "str_int 7 = ''7''"
  by (simp_all add: str_int_def str_nat.simps digit_char_def)

text \<open>
  C7. Whenever the body of the character creation completes without an exception, for
  the created character with id \<open>cid\<close> and the owning account with id \<open>pid\<close>: the
  lock string passed to the lock handler holds exactly three lock definitions, namely
  \<open>puppet:id(cid) or pid(pid) or perm(immortal)\<close>, \<open>edit:id(cid) or pid(pid) or perm(wizard)\<close>
  and \<open>control:id(cid) or pid(pid) or perm(immortal)\<close>; the character's locks afterwards
  are its locks at creation with these three stored under puppet, edit and control; if
  the character had no brief description the default one is set, and in every case the
  brief description is not absent afterwards.
\<close>

theorem create_character_locks_and_desc:
  assumes run: "create_character_body rk create_object acct typeclass home_arg perms
                  = (tr, acct', cho, Inr ())"
  shows "\<exists>ch0 ch'. create_object typeclass (a_key acct) home_arg perms = Inr ch0
           \<and> cho = Some ch' \<and> c_id ch' = c_id ch0
           \<and> lock_defs (new_locks (c_id ch') (a_id acct)) =
               [''puppet:id('' @ str_int (c_id ch') @ '') or pid('' @ str_int (a_id acct) @ '') or perm(immortal)'',
                ''edit:id('' @ str_int (c_id ch') @ '') or pid('' @ str_int (a_id acct) @ '') or perm(wizard)'',
                ''control:id('' @ str_int (c_id ch') @ '') or pid('' @ str_int (a_id acct) @ '') or perm(immortal)'']
           \<and> c_locks ch' = (c_locks ch0)
               (''puppet'' \<mapsto> ''puppet:id('' @ str_int (c_id ch') @ '') or pid('' @ str_int (a_id acct) @ '') or perm(immortal)'',
                ''edit'' \<mapsto> ''edit:id('' @ str_int (c_id ch') @ '') or pid('' @ str_int (a_id acct) @ '') or perm(wizard)'',
                ''control'' \<mapsto> ''control:id('' @ str_int (c_id ch') @ '') or pid('' @ str_int (a_id acct) @ '') or perm(immortal)'')
           \<and> (\<not> truthy_opt (db_desc_brief ch0) \<longrightarrow> db_desc_brief ch' = Some (PStr default_desc_brief))
           \<and> db_desc_brief ch' \<noteq> None"
proof -
  from create_character_body_success [OF run] obtain ch0 where
    mk: "create_object typeclass (a_key acct) home_arg perms = Inr ch0" and
    cho: "cho = Some (set_locks_and_desc (a_id acct) (fst (apply_home_room ch0)))"
    by blast
  let ?ch = "set_locks_and_desc (a_id acct) (fst (apply_home_room ch0))"
  have cid: "c_id ?ch = c_id ch0"
    by (simp add: set_locks_and_desc_id apply_home_room_keeps)
  have locks: "c_locks ?ch = locks_add (new_locks (c_id ch0) (a_id acct)) (c_locks ch0)"
    by (simp add: set_locks_and_desc_locks apply_home_room_keeps)
  have brief: "db_desc_brief ?ch =
      (if truthy_opt (db_desc_brief ch0) then db_desc_brief ch0 else Some (PStr default_desc_brief))"
    by (simp add: set_locks_and_desc_brief apply_home_room_keeps)
  have set: "db_desc_brief ?ch \<noteq> None"
    unfolding brief by (cases "db_desc_brief ch0") simp_all
  show ?thesis
    apply (rule exI [of _ ch0])
    apply (rule exI [of _ ?ch])
    apply (simp only: mk cho cid locks locks_add_new_locks lock_defs_new_locks)
    using brief set apply simp
    done
qed

theorem create_character_locks_and_desc_witness:
  "\<exists>tr acct' ch'.
      create_character_body (\<lambda>r. ''Hall'') sample_create_object sample_account ''Character'' (Some 4) []
        = (tr, acct', Some ch', Inr ())
      \<and> c_locks ch' ''puppet'' = Some ''puppet:id(42) or pid(7) or perm(immortal)''
      \<and> c_locks ch' ''edit'' = Some ''edit:id(42) or pid(7) or perm(wizard)''
      \<and> c_locks ch' ''control'' = Some ''control:id(42) or pid(7) or perm(immortal)''
      \<and> db_desc_brief ch' = Some (PStr default_desc_brief)"
proof -
  let ?run = "create_character_body (\<lambda>r. ''Hall'') sample_create_object sample_account
                ''Character'' (Some 4) []"
  have ok: "snd (snd (snd ?run)) = Inr ()"
    by (simp add: create_character_body_def sample_create_object_def sample_account_def
          apply_home_room_def Let_def)
  obtain tr acct' cho where run: "?run = (tr, acct', cho, Inr ())"
    using ok by (metis prod.collapse)
  from create_character_locks_and_desc [OF run] obtain ch0 ch' where
    mk: "sample_create_object ''Character'' (a_key sample_account) (Some 4) [] = Inr ch0" and
    cho: "cho = Some ch'" and cid: "c_id ch' = c_id ch0" and
    locks: "c_locks ch' = (c_locks ch0)
               (''puppet'' \<mapsto> ''puppet:id('' @ str_int (c_id ch') @ '') or pid('' @ str_int (a_id sample_account) @ '') or perm(immortal)'',
                ''edit'' \<mapsto> ''edit:id('' @ str_int (c_id ch') @ '') or pid('' @ str_int (a_id sample_account) @ '') or perm(wizard)'',
                ''control'' \<mapsto> ''control:id('' @ str_int (c_id ch') @ '') or pid('' @ str_int (a_id sample_account) @ '') or perm(immortal)'')" and
    brief: "\<not> truthy_opt (db_desc_brief ch0) \<longrightarrow> db_desc_brief ch' = Some (PStr default_desc_brief)"
    by blast
  from mk have ch0: "c_id ch0 = 42" "db_desc_brief ch0 = None"
    by (auto simp: sample_create_object_def)
  have pid: "a_id sample_account = 7" by (simp add: sample_account_def)
  from brief ch0 have b: "db_desc_brief ch' = Some (PStr default_desc_brief)" by simp
  have l: "c_locks ch' ''puppet'' = Some ''puppet:id(42) or pid(7) or perm(immortal)''"
    "c_locks ch' ''edit'' = Some ''edit:id(42) or pid(7) or perm(wizard)''"
    "c_locks ch' ''control'' = Some ''control:id(42) or pid(7) or perm(immortal)''"
    by (simp_all add: locks cid ch0 pid str_int_42)
  from run cho b l show ?thesis by blast
qed

subsection \<open>Guest name selection\<close>

lemma lower_guest: "lower ''Guest1'' = ''guest1''" "lower ''guest1'' = ''guest1''"
  by (simp_all add: lower_def lower_char_def)

lemma find_guest_name_first:
  "find_guest_name (\<lambda>q. Inr (iexact_count registered q)) None (name # rest) = Inr (Some name)"
  by (simp add: iexact_count_def)

text \<open>
  C3. Guest login with the guest list Guest1, Guest2 while the username guest1 is
  registered and Guest2 is free: the scan of the list selects Guest1, the name that is
  already registered, because the query is made with the variable that is still
  \<open>None\<close> and so counts no account; the creation under that name is refused, the
  session is told of an error, and no account is returned although Guest2 is free.
\<close>

theorem guest_login_takes_registered_name:
  "find_guest_name (count_accounts (guest_env [''guest1''])) None (GUEST_LIST guest_settings)
     = Inr (Some ''Guest1'')
   \<and> iexact_count [''guest1''] (Some ''Guest1'') = 1
   \<and> iexact_count [''guest1''] (Some ''Guest2'') = 0
   \<and> create_guest_account guest_settings (guest_env [''guest1'']) guest_session =
       ([SessMsg (''There was an error creating the Account:'' @ [CHR 0x0A] @ ''error''
                   @ [CHR 0x0A] @ '' If this problem persists, contact an admin.''),
         LogTrace], Inr (True, None))"
proof (intro conjI)
  show "find_guest_name (count_accounts (guest_env [''guest1''])) None (GUEST_LIST guest_settings)
     = Inr (Some ''Guest1'')"
    by (simp add: guest_env_def guest_settings_def iexact_count_def)
  show c1: "iexact_count [''guest1''] (Some ''Guest1'') = 1"
    by (simp add: iexact_count_def lower_guest)
  show "iexact_count [''guest1''] (Some ''Guest2'') = 0"
    by (simp add: iexact_count_def lower_def lower_char_def)
  show "create_guest_account guest_settings (guest_env [''guest1'']) guest_session =
       ([SessMsg (''There was an error creating the Account:'' @ [CHR 0x0A] @ ''error''
                   @ [CHR 0x0A] @ '' If this problem persists, contact an admin.''),
         LogTrace], Inr (True, None))"
    by (simp add: create_guest_account_def guest_settings_def guest_env_def guest_session_def
          ip_banned_def create_account_def c1 iexact_count_def [of _ None])
qed

subsection \<open>Encoding changes\<close>

lemma strip_id:
  assumes "s \<noteq> []" and "\<not> is_space (hd s)" and "\<not> is_space (last s)"
  shows "strip s = s"
proof -
  from assms(1,2) have a: "dropWhile is_space s = s" by (cases s) simp_all
  from assms(1) obtain xs where r: "rev s = last s # xs"
    by (cases s rule: rev_cases) simp_all
  from assms(3) have "dropWhile is_space (last s # xs) = last s # xs" by simp
  then have "dropWhile is_space (rev s) = rev s" unfolding r .
  with a show ?thesis by (simp add: strip_def)
qed

lemma rejection_strip: "strip (encoding_rejected_msg args old) = encoding_rejected_msg args old"
  by (rule strip_id) (simp_all add: encoding_rejected_msg_def is_space_def)

lemma change_strip: "strip (encoding_changed_msg args old) = encoding_changed_msg args old"
  by (rule strip_id) (simp_all add: encoding_changed_msg_def is_space_def)

text \<open>
  C8. The encoding command on a session: with an argument and without the clear switch,
  when the round trip of the test string raises \<open>LookupError\<close> the session is returned
  unchanged, the rejection is the only message and no synchronisation with the portal is
  made; when the round trip succeeds the encoding flag is set to the argument, the
  session is synchronised with the portal and the change is reported. With the clear
  switch the flag is set to utf-8 and the session is synchronised, whatever the argument.
\<close>

theorem encoding_command_outcomes:
  "(args \<noteq> [] \<and> ''clear'' \<notin> set switches \<and> validate args = Some (LookupError x) \<longrightarrow>
      CmdUnconnectedEncoding_func validate encs (Some s) switches args =
        ([SessMsg (encoding_rejected_msg args (protocol_flags s ''ENCODING''))], Some s, Inr ()))
   \<and> (args \<noteq> [] \<and> ''clear'' \<notin> set switches \<and> validate args = None \<longrightarrow>
      CmdUnconnectedEncoding_func validate encs (Some s) switches args =
        ([PortalSync, SessMsg (encoding_changed_msg args (protocol_flags s ''ENCODING''))],
         Some (s\<lparr>protocol_flags := (protocol_flags s)(''ENCODING'' \<mapsto> PStr args)\<rparr>), Inr ()))
   \<and> (''clear'' \<in> set switches \<longrightarrow>
      (\<exists>m. CmdUnconnectedEncoding_func validate encs (Some s) switches args =
        ([PortalSync, SessMsg m],
         Some (s\<lparr>protocol_flags := (protocol_flags s)(''ENCODING'' \<mapsto> PStr ''utf-8'')\<rparr>), Inr ())))"
proof (intro conjI impI)
  assume "args \<noteq> [] \<and> ''clear'' \<notin> set switches \<and> validate args = Some (LookupError x)"
  then show "CmdUnconnectedEncoding_func validate encs (Some s) switches args =
        ([SessMsg (encoding_rejected_msg args (protocol_flags s ''ENCODING''))], Some s, Inr ())"
    by (simp add: CmdUnconnectedEncoding_func_def Let_def rejection_strip)
next
  assume "args \<noteq> [] \<and> ''clear'' \<notin> set switches \<and> validate args = None"
  then show "CmdUnconnectedEncoding_func validate encs (Some s) switches args =
        ([PortalSync, SessMsg (encoding_changed_msg args (protocol_flags s ''ENCODING''))],
         Some (s\<lparr>protocol_flags := (protocol_flags s)(''ENCODING'' \<mapsto> PStr args)\<rparr>), Inr ())"
    by (simp add: CmdUnconnectedEncoding_func_def Let_def change_strip)
next
  assume "''clear'' \<in> set switches"
  then show "\<exists>m. CmdUnconnectedEncoding_func validate encs (Some s) switches args =
        ([PortalSync, SessMsg m],
         Some (s\<lparr>protocol_flags := (protocol_flags s)(''ENCODING'' \<mapsto> PStr ''utf-8'')\<rparr>), Inr ())"
    by (simp add: CmdUnconnectedEncoding_func_def Let_def)
qed

theorem encoding_command_outcomes_witness:
  "CmdUnconnectedEncoding_func sample_validate [] (Some latin_session) [] ''klingon'' =
     ([SessMsg (encoding_rejected_msg ''klingon'' (Some (PStr ''latin-1'')))],
      Some latin_session, Inr ())
   \<and> CmdUnconnectedEncoding_func sample_validate [] (Some latin_session) [] ''cp437'' =
     ([PortalSync, SessMsg (encoding_changed_msg ''cp437'' (Some (PStr ''latin-1'')))],
      Some (latin_session\<lparr>protocol_flags := (protocol_flags latin_session)(''ENCODING'' \<mapsto> PStr ''cp437'')\<rparr>),
      Inr ())
   \<and> (\<exists>m. CmdUnconnectedEncoding_func sample_validate [] (Some latin_session) [''clear''] ''cp437'' =
     ([PortalSync, SessMsg m],
      Some (latin_session\<lparr>protocol_flags := (protocol_flags latin_session)(''ENCODING'' \<mapsto> PStr ''utf-8'')\<rparr>),
      Inr ()))"
proof -
  have bad: "sample_validate ''klingon'' = Some (LookupError ''klingon'')"
    and good: "sample_validate ''cp437'' = None"
    by (simp_all add: sample_validate_def)
  have old: "protocol_flags latin_session ''ENCODING'' = Some (PStr ''latin-1'')"
    by (simp add: latin_session_def)
  have r1: "''klingon'' \<noteq> [] \<and> ''clear'' \<notin> set ([]::string list)
              \<and> sample_validate ''klingon'' = Some (LookupError ''klingon'')"
    using bad by simp
  have r2: "''cp437'' \<noteq> [] \<and> ''clear'' \<notin> set ([]::string list) \<and> sample_validate ''cp437'' = None"
    using good by simp
  have r3: "''clear'' \<in> set [''clear'']" by simp
  note t1 = encoding_command_outcomes
     [where args = "''klingon''" and switches = "[]" and validate = sample_validate
        and x = "''klingon''" and encs = "[]" and s = latin_session]
  note t2 = encoding_command_outcomes
     [where args = "''cp437''" and switches = "[]" and validate = sample_validate
        and encs = "[]" and s = latin_session]
  note t3 = encoding_command_outcomes
     [where args = "''cp437''" and switches = "[''clear'']" and validate = sample_validate
        and encs = "[]" and s = latin_session]
  from t1 r1 have a: "CmdUnconnectedEncoding_func sample_validate [] (Some latin_session) [] ''klingon'' =
     ([SessMsg (encoding_rejected_msg ''klingon'' (Some (PStr ''latin-1'')))],
      Some latin_session, Inr ())"
    unfolding old by blast
  from t2 r2 have b: "CmdUnconnectedEncoding_func sample_validate [] (Some latin_session) [] ''cp437'' =
     ([PortalSync, SessMsg (encoding_changed_msg ''cp437'' (Some (PStr ''latin-1'')))],
      Some (latin_session\<lparr>protocol_flags := (protocol_flags latin_session)(''ENCODING'' \<mapsto> PStr ''cp437'')\<rparr>),
      Inr ())"
    unfolding old by blast
  from t3 r3 have c: "\<exists>m. CmdUnconnectedEncoding_func sample_validate [] (Some latin_session) [''clear''] ''cp437'' =
     ([PortalSync, SessMsg m],
      Some (latin_session\<lparr>protocol_flags := (protocol_flags latin_session)(''ENCODING'' \<mapsto> PStr ''utf-8'')\<rparr>),
      Inr ())"
    by blast
  from a b c show ?thesis by blast
qed

subsection \<open>The character command set\<close>










subsection \<open>The worker pool service\<close>

lemma str_int_5001: "str_int 5001 = ''5001''"
  by (simp add: str_int_def str_nat.simps digit_char_def)

text \<open>
  C9. With the module's constants the plugin prints the port and registers one service:
  the pool is built with min 5, max 20, recycleAfter 500 and timeout 15, the service is
  bound to port 5001 on interface 0.0.0.0 and named PythonProcPool. The idle time is
  the constant 20, and for every configuration the result of the plugin does not depend
  on it: it is passed neither to the starter, nor to the pool, nor to the service.
\<close>

theorem procpool_service_parameters:
  "start_plugin_services plugin_settings h services =
     ([''  amp (Process Pool): 5001''],
      services @
        [\<lparr>svc_pool = \<lparr>pool_name = ''PythonProcPool'', pool_min = 5, pool_max = 20,
                      pool_recycleAfter = 500, pool_timeout = 15,
                      pool_ampChild = ''PythonProcPoolChild'',
                      pool_starter = procpool_starter plugin_settings h\<rparr>,
          svc_child = ''PythonProcPoolChild'', svc_port = 5001, svc_interface = ''0.0.0.0'',
          svc_name = Some ''PythonProcPool''\<rparr>])
   \<and> PROCPOOL_IDLETIME plugin_settings = 20
   \<and> (\<forall>cfg t. start_plugin_services (cfg\<lparr>PROCPOOL_IDLETIME := t\<rparr>) h services
                = start_plugin_services cfg h services)"
proof (intro conjI allI)
  show "start_plugin_services plugin_settings h services =
     ([''  amp (Process Pool): 5001''],
      services @
        [\<lparr>svc_pool = \<lparr>pool_name = ''PythonProcPool'', pool_min = 5, pool_max = 20,
                      pool_recycleAfter = 500, pool_timeout = 15,
                      pool_ampChild = ''PythonProcPoolChild'',
                      pool_starter = procpool_starter plugin_settings h\<rparr>,
          svc_child = ''PythonProcPoolChild'', svc_port = 5001, svc_interface = ''0.0.0.0'',
          svc_name = Some ''PythonProcPool''\<rparr>])"
    by (simp add: start_plugin_services_def Let_def str_int_5001)
       (simp add: plugin_settings_def str_int_5001)
  show "PROCPOOL_IDLETIME plugin_settings = 20" by (simp add: plugin_settings_def)
  fix cfg t
  show "start_plugin_services (cfg\<lparr>PROCPOOL_IDLETIME := t\<rparr>) h services
          = start_plugin_services cfg h services"
    by (simp add: start_plugin_services_def procpool_starter_def)
qed

end
